theory Spec2Isabelle
  imports Main
begin

section \<open>The Search component of the AWX user interface\<close>

text \<open>
  A shallow embedding of \<^verbatim>\<open>awx/ui_next/src/components/Search/Search.jsx\<close>: a React class
  component with a column selector, a text input and a submit button. The embedding covers
  the constructor, the four event handlers and the part of \<^verbatim>\<open>render\<close> that decides what
  the column selector shows.
\<close>

subsection \<open>Values, props and state\<close>

text \<open>
  The JavaScript values that the component keeps in its state: booleans, strings, and
  \<^verbatim>\<open>undefined\<close> for a property that is read but absent.
\<close>

datatype jsval = JUndefined | JBool bool | JStr string

text \<open>
  The string a template literal \<^verbatim>\<open>`${v}`\<close> substitutes for a value.
\<close>

fun ToString :: "jsval \<Rightarrow> string" where
  "ToString JUndefined = ''undefined''"
| "ToString (JBool b) = (if b then ''true'' else ''false'')"
| "ToString (JStr s) = s"

text \<open>
  An element of the \<^verbatim>\<open>columns\<close> prop. The component reads three properties of it:
  \<^verbatim>\<open>key\<close> and \<^verbatim>\<open>name\<close>, used as strings, and \<^verbatim>\<open>isSearchable\<close>, used as a condition.
\<close>

record column =
  key :: string
  name :: string
  isSearchable :: bool

text \<open>
  The props. \<^verbatim>\<open>onSearch\<close> is a function of the parent or \<^verbatim>\<open>null\<close> (\<open>None\<close>); what the
  parent's function does is outside the component, so it is a transformer of a parent
  state of an arbitrary type \<open>'w\<close>.
\<close>

record 'w props =
  columns :: "column list"
  onSearch :: "(string \<Rightarrow> jsval \<Rightarrow> 'w \<Rightarrow> 'w) option"
  sortedColumnKey :: string

text \<open>
  \<^verbatim>\<open>Search.defaultProps\<close>: the props of a component that was given the required
  \<^verbatim>\<open>columns\<close> and nothing else.
\<close>

definition defaultProps :: "column list \<Rightarrow> 'w props" where
  "defaultProps cs = \<lparr>columns = cs, onSearch = None, sortedColumnKey = ''name''\<rparr>"

text \<open>
  \<^verbatim>\<open>this.state\<close> is an object: a finite map from property names to values.
  \<^verbatim>\<open>setState\<close> merges the properties of its argument into it, which is a map update.
  Reading a property that is absent gives \<^verbatim>\<open>undefined\<close>.
\<close>

type_synonym state = "string \<rightharpoonup> jsval"

definition prop_get :: "state \<Rightarrow> string \<Rightarrow> jsval" where
  "prop_get s k = (case s k of None \<Rightarrow> JUndefined | Some v \<Rightarrow> v)"

text \<open>The only exception the component itself can raise.\<close>

datatype error = TypeError

text \<open>The submit event, as far as the handler touches it.\<close>

record event =
  defaultPrevented :: bool

subsection \<open>Constructor and handlers\<close>

definition constructor :: "'w props \<Rightarrow> state" where
  "constructor p =
     [''isSearchDropdownOpen'' \<mapsto> JBool False,
      ''searchKey'' \<mapsto> JStr (sortedColumnKey p),
      ''searchValue'' \<mapsto> JStr '''']"

definition handleDropdownToggle :: "bool \<Rightarrow> state \<Rightarrow> state" where
  "handleDropdownToggle isOpen s = s(''isSearchDropdownOpen'' \<mapsto> JBool isOpen)"

text \<open>
  \<^verbatim>\<open>columns.find(...)\<close> gives the first column with the name, or \<^verbatim>\<open>undefined\<close>;
  destructuring \<^verbatim>\<open>undefined\<close> raises a TypeError before \<^verbatim>\<open>setState\<close> is reached.
\<close>

definition handleDropdownSelect :: "'w props \<Rightarrow> string \<Rightarrow> state \<Rightarrow> error + state" where
  "handleDropdownSelect p innerText s =
     (case find (\<lambda>c. name c = innerText) (columns p) of
        None \<Rightarrow> Inl TypeError
      | Some c \<Rightarrow> Inr (s(''isSearchDropdownOpen'' \<mapsto> JBool False, ''searchKey'' \<mapsto> JStr (key c))))"

text \<open>
  The submit handler: it marks the event, calls \<^verbatim>\<open>onSearch\<close> and clears the text. Calling
  \<^verbatim>\<open>null\<close> raises a TypeError, after the event was marked and before \<^verbatim>\<open>setState\<close>. The
  result is the event, and either the error or the new state with the parent's new state.
\<close>

definition handleSearch ::
  "'w props \<Rightarrow> event \<Rightarrow> state \<Rightarrow> 'w \<Rightarrow> event \<times> (error + state \<times> 'w)" where
  "handleSearch p e s w =
     (let e' = e\<lparr>defaultPrevented := True\<rparr>;
          searchKey = prop_get s ''searchKey'';
          searchValue = prop_get s ''searchValue''
      in case onSearch p of
           None \<Rightarrow> (e', Inl TypeError)
         | Some f \<Rightarrow>
             (e', Inr (s(''searchValue'' \<mapsto> JStr ''''),
                       f (ToString searchKey @ ''__icontains'') searchValue w)))"

definition handleSearchInputChange :: "string \<Rightarrow> state \<Rightarrow> state" where
  "handleSearchInputChange searchValue s = s(''searchValue'' \<mapsto> JStr searchValue)"

subsection \<open>Rendering\<close>

text \<open>
  What \<^verbatim>\<open>render\<close> returns, reduced to the parts that depend on props and state: the
  column selector is a dropdown with its items, or a static label; the text input shows
  the current text.
\<close>

record dropdownItem =
  itemKey :: string
  itemText :: string

datatype selector =
  Dropdown jsval string "dropdownItem list"
| NoOptionDropdown string

record view =
  keySelector :: selector
  textInputValue :: jsval

definition searchDropdownItems :: "'w props \<Rightarrow> state \<Rightarrow> dropdownItem list" where
  "searchDropdownItems p s =
     map (\<lambda>c. \<lparr>itemKey = key c, itemText = name c\<rparr>)
       (filter (\<lambda>c. isSearchable c \<and> JStr (key c) \<noteq> prop_get s ''searchKey'') (columns p))"

definition render :: "'w props \<Rightarrow> state \<Rightarrow> error + view" where
  "render p s =
     (case find (\<lambda>c. JStr (key c) = prop_get s ''searchKey'') (columns p) of
        None \<Rightarrow> Inl TypeError
      | Some c \<Rightarrow>
          Inr \<lparr>keySelector =
                 (if length (searchDropdownItems p s) > 0
                  then Dropdown (prop_get s ''isSearchDropdownOpen'') (name c)
                         (searchDropdownItems p s)
                  else NoOptionDropdown (name c)),
               textInputValue = prop_get s ''searchValue''\<rparr>)"

subsection \<open>Sequences of events\<close>

text \<open>
  The events a mounted component receives. A handler that raises has not called
  \<^verbatim>\<open>setState\<close> nor the parent's function, so it leaves both states as they were.
\<close>

datatype op = Toggle bool | Select string | InputChange string | Submit event

fun dispatch :: "'w props \<Rightarrow> op \<Rightarrow> state \<times> 'w \<Rightarrow> state \<times> 'w" where
  "dispatch p (Toggle b) (s, w) = (handleDropdownToggle b s, w)"
| "dispatch p (Select t) (s, w) =
     (case handleDropdownSelect p t s of Inl _ \<Rightarrow> (s, w) | Inr s' \<Rightarrow> (s', w))"
| "dispatch p (InputChange v) (s, w) = (handleSearchInputChange v s, w)"
| "dispatch p (Submit e) (s, w) =
     (case snd (handleSearch p e s w) of Inl _ \<Rightarrow> (s, w) | Inr r \<Rightarrow> r)"

fun run :: "'w props \<Rightarrow> op list \<Rightarrow> state \<times> 'w \<Rightarrow> state \<times> 'w" where
  "run p [] sw = sw"
| "run p (x # xs) sw = run p xs (dispatch p x sw)"

text \<open>The selected key is the key of an element of \<^verbatim>\<open>columns\<close>.\<close>

definition selectedKeyInColumns :: "'w props \<Rightarrow> state \<Rightarrow> bool" where
  "selectedKeyInColumns p s = (prop_get s ''searchKey'' \<in> set (map (\<lambda>c. JStr (key c)) (columns p)))"

text \<open>The three properties of the state object.\<close>

definition stateFields :: "string set" where
  "stateFields = {''isSearchDropdownOpen'', ''searchKey'', ''searchValue''}"

text \<open>
  The columns that the claim about the dropdown speaks of: those whose \<^verbatim>\<open>isSearchable\<close>
  flag is true and whose key differs from the current \<^verbatim>\<open>searchKey\<close>, in the order of the
  \<^verbatim>\<open>columns\<close> prop. This follows the specification's words and is compared with
  \<open>searchDropdownItems\<close>, which follows the code.
\<close>

definition shownColumns :: "'w props \<Rightarrow> state \<Rightarrow> column list" where
  "shownColumns p s =
     filter (\<lambda>c. isSearchable c \<and> JStr (key c) \<noteq> prop_get s ''searchKey'') (columns p)"

subsection \<open>Example inputs\<close>

text \<open>
  A parent function that only records the arguments of each call, so that the parent's
  state is the list of calls made so far.
\<close>

definition recordCall :: "string \<Rightarrow> jsval \<Rightarrow> (string \<times> jsval) list \<Rightarrow> (string \<times> jsval) list" where
  "recordCall k v calls = calls @ [(k, v)]"

definition exampleColumns :: "column list" where
  "exampleColumns =
     [\<lparr>key = ''name'', name = ''Name'', isSearchable = True\<rparr>,
      \<lparr>key = ''id'', name = ''ID'', isSearchable = True\<rparr>,
      \<lparr>key = ''modified'', name = ''Modified'', isSearchable = False\<rparr>]"

definition exampleProps :: "(string \<times> jsval) list props" where
  "exampleProps =
     \<lparr>columns = exampleColumns, onSearch = Some recordCall, sortedColumnKey = ''name''\<rparr>"

text \<open>The state after typing \<^verbatim>\<open>abc\<close> into a new component.\<close>

definition typedState :: state where
  "typedState = handleSearchInputChange ''abc'' (constructor exampleProps)"

text \<open>A column list without a column of key \<^verbatim>\<open>name\<close>, and nothing else supplied.\<close>

definition idOnlyColumns :: "column list" where
  "idOnlyColumns = [\<lparr>key = ''id'', name = ''ID'', isSearchable = True\<rparr>]"

definition idOnlyProps :: "unit props" where
  "idOnlyProps = defaultProps idOnlyColumns"

text \<open>Two columns that share a display name.\<close>

definition sharedNameColumns :: "column list" where
  "sharedNameColumns =
     [\<lparr>key = ''name'', name = ''Name'', isSearchable = True\<rparr>,
      \<lparr>key = ''id'', name = ''ID'', isSearchable = True\<rparr>,
      \<lparr>key = ''uuid'', name = ''ID'', isSearchable = True\<rparr>]"

definition sharedNameProps :: "unit props" where
  "sharedNameProps = defaultProps sharedNameColumns"

definition singleColumnProps :: "unit props" where
  "singleColumnProps = defaultProps [\<lparr>key = ''name'', name = ''Name'', isSearchable = True\<rparr>]"

definition exampleOps :: "op list" where
  "exampleOps =
     [Toggle True, Select ''ID'', InputChange ''42'', Submit \<lparr>defaultPrevented = False\<rparr>,
      Select ''No such column'']"

section \<open>Properties\<close>

subsection \<open>Auxiliary facts\<close>

lemma handleSearch_Some:
  "onSearch p = Some f \<Longrightarrow>
   handleSearch p e s w =
     (e\<lparr>defaultPrevented := True\<rparr>,
      Inr (s(''searchValue'' \<mapsto> JStr ''''),
           f (ToString (prop_get s ''searchKey'') @ ''__icontains'')
             (prop_get s ''searchValue'') w))"
  by (simp add: handleSearch_def)

lemma selectedKeyInColumns_constructor:
  "selectedKeyInColumns p (constructor p) = (sortedColumnKey p \<in> set (map key (columns p)))"
  by (auto simp: selectedKeyInColumns_def constructor_def prop_get_def)

lemma find_Some_in_set: "find P cs = Some c \<Longrightarrow> c \<in> set cs"
  by (auto simp: find_Some_iff)

lemma dispatch_preserves_selectedKey:
  "selectedKeyInColumns p (fst sw) \<Longrightarrow> selectedKeyInColumns p (fst (dispatch p x sw))"
proof (cases sw)
  case (Pair s w)
  assume inv: "selectedKeyInColumns p (fst sw)"
  show ?thesis
  proof (cases x)
    case (Toggle b)
    with Pair inv show ?thesis
      by (simp add: selectedKeyInColumns_def handleDropdownToggle_def prop_get_def)
  next
    case (Select t)
    show ?thesis
    proof (cases "find (\<lambda>c. name c = t) (columns p)")
      case None
      with Pair Select inv show ?thesis by (simp add: handleDropdownSelect_def)
    next
      case (Some c)
      then have "c \<in> set (columns p)" by (rule find_Some_in_set)
      with Pair Select Some show ?thesis
        by (simp add: handleDropdownSelect_def selectedKeyInColumns_def prop_get_def)
    qed
  next
    case (InputChange v)
    with Pair inv show ?thesis
      by (simp add: selectedKeyInColumns_def handleSearchInputChange_def prop_get_def)
  next
    case (Submit e)
    with Pair inv show ?thesis
      by (cases "onSearch p")
         (simp_all add: handleSearch_def selectedKeyInColumns_def prop_get_def)
  qed
qed

lemma run_preserves_selectedKey:
  "selectedKeyInColumns p (fst sw) \<Longrightarrow> selectedKeyInColumns p (fst (run p xs sw))"
  by (induction xs arbitrary: sw) (simp_all add: dispatch_preserves_selectedKey)

lemma constructor_dom: "dom (constructor p) = stateFields"
  by (auto simp: constructor_def stateFields_def)

lemma dispatch_dom:
  "dom (fst sw) = stateFields \<Longrightarrow> dom (fst (dispatch p x sw)) = stateFields"
proof (cases sw)
  case (Pair s w)
  assume d: "dom (fst sw) = stateFields"
  show ?thesis
  proof (cases x)
    case (Toggle b)
    with Pair d show ?thesis by (auto simp: handleDropdownToggle_def stateFields_def)
  next
    case (Select t)
    with Pair d show ?thesis
      by (cases "find (\<lambda>c. name c = t) (columns p)")
         (auto simp: handleDropdownSelect_def stateFields_def)
  next
    case (InputChange v)
    with Pair d show ?thesis by (auto simp: handleSearchInputChange_def stateFields_def)
  next
    case (Submit e)
    with Pair d show ?thesis
      by (cases "onSearch p") (auto simp: handleSearch_def stateFields_def)
  qed
qed

lemma run_dom:
  "dom (fst sw) = stateFields \<Longrightarrow> dom (fst (run p xs sw)) = stateFields"
  by (induction xs arbitrary: sw) (simp_all add: dispatch_dom)

subsection \<open>Submitting\<close>

text \<open>
  Claim C1. In a state whose selected column key is \<open>k\<close> and whose typed text is \<open>v\<close>,
  submitting calls the parent's \<^verbatim>\<open>onSearch\<close> once: the parent's state after the submit is
  the one that a single call with first argument \<open>k\<close> followed by \<^verbatim>\<open>__icontains\<close> and second
  argument \<open>v\<close> produces.
\<close>

theorem handleSearch_calls_onSearch:
  assumes "onSearch p = Some f"
    and "s ''searchKey'' = Some (JStr k)"
    and "s ''searchValue'' = Some (JStr v)"
  shows "\<exists>s'. snd (handleSearch p e s w) = Inr (s', f (k @ ''__icontains'') (JStr v) w)"
  using assms by (simp add: handleSearch_Some prop_get_def)

text \<open>
  With a parent that records its calls, submitting \<^verbatim>\<open>abc\<close> for the column \<^verbatim>\<open>name\<close> leaves
  exactly one recorded call.
\<close>

theorem handleSearch_calls_onSearch_witness:
  "onSearch exampleProps = Some recordCall
   \<and> typedState ''searchKey'' = Some (JStr ''name'')
   \<and> typedState ''searchValue'' = Some (JStr ''abc'')
   \<and> (\<exists>s'. snd (handleSearch exampleProps \<lparr>defaultPrevented = False\<rparr> typedState [])
         = Inr (s', [(''name__icontains'', JStr ''abc'')]))"
proof -
  have h1: "onSearch exampleProps = Some recordCall" by (simp add: exampleProps_def)
  have h2: "typedState ''searchKey'' = Some (JStr ''name'')"
    by (simp add: typedState_def handleSearchInputChange_def constructor_def exampleProps_def)
  have h3: "typedState ''searchValue'' = Some (JStr ''abc'')"
    by (simp add: typedState_def handleSearchInputChange_def)
  from handleSearch_calls_onSearch [OF h1 h2 h3, of "\<lparr>defaultPrevented = False\<rparr>" "[]"]
  show ?thesis using h1 h2 h3 by (simp add: recordCall_def)
qed

text \<open>
  Claim C4. The submit handler raises a TypeError exactly when \<^verbatim>\<open>onSearch\<close> is
  \<^verbatim>\<open>null\<close>; with the component's own default props it always does.
\<close>

theorem handleSearch_null_fails:
  "(snd (handleSearch p e s w) = Inl TypeError) = (onSearch p = None)
   \<and> snd (handleSearch (defaultProps cs) e s w) = Inl TypeError"
  by (cases "onSearch p") (simp_all add: handleSearch_def defaultProps_def)

text \<open>
  Claim C5. After a submit the text value is the empty string; the selected key, the
  dropdown flag and every other property of the state are as before.
\<close>

theorem handleSearch_resets_text_only:
  assumes "onSearch p = Some f"
  shows "\<exists>s' w'. snd (handleSearch p e s w) = Inr (s', w')
           \<and> s' ''searchValue'' = Some (JStr '''')
           \<and> s' ''searchKey'' = s ''searchKey''
           \<and> s' ''isSearchDropdownOpen'' = s ''isSearchDropdownOpen''
           \<and> s' |` (- {''searchValue''}) = s |` (- {''searchValue''})"
  using assms by (simp add: handleSearch_Some)

theorem handleSearch_resets_text_only_witness:
  "onSearch exampleProps = Some recordCall
   \<and> (\<exists>s' w'. snd (handleSearch exampleProps \<lparr>defaultPrevented = False\<rparr> typedState []) = Inr (s', w')
           \<and> s' ''searchValue'' = Some (JStr '''')
           \<and> s' ''searchKey'' = typedState ''searchKey''
           \<and> s' ''isSearchDropdownOpen'' = typedState ''isSearchDropdownOpen''
           \<and> s' |` (- {''searchValue''}) = typedState |` (- {''searchValue''}))
   \<and> typedState ''searchValue'' = Some (JStr ''abc'')"
proof -
  have h: "onSearch exampleProps = Some recordCall" by (simp add: exampleProps_def)
  have t: "typedState ''searchValue'' = Some (JStr ''abc'')"
    by (simp add: typedState_def handleSearchInputChange_def)
  from handleSearch_resets_text_only [OF h] h t show ?thesis by blast
qed

text \<open>
  Claim C7. Submit does not look at the typed text: whether it raises does not depend on
  the text, and whatever the text is, the empty string included, \<^verbatim>\<open>onSearch\<close> is called
  with that text.
\<close>

theorem handleSearch_accepts_any_text:
  "(isl (snd (handleSearch p e (s(''searchValue'' \<mapsto> JStr v)) w))
      = isl (snd (handleSearch p e s w)))
   \<and> (onSearch p = Some f \<longrightarrow>
        (\<exists>s'. snd (handleSearch p e (s(''searchValue'' \<mapsto> JStr v)) w) =
           Inr (s', f (ToString (prop_get s ''searchKey'') @ ''__icontains'') (JStr v) w))
        \<and> (\<exists>s'. snd (handleSearch p e (s(''searchValue'' \<mapsto> JStr '''')) w) =
           Inr (s', f (ToString (prop_get s ''searchKey'') @ ''__icontains'') (JStr '''') w)))"
proof -
  have "isl (snd (handleSearch p e (s(''searchValue'' \<mapsto> JStr v)) w))
      = isl (snd (handleSearch p e s w))"
    by (cases "onSearch p") (simp_all add: handleSearch_def)
  then show ?thesis by (simp add: handleSearch_Some prop_get_def)
qed

theorem handleSearch_accepts_any_text_witness:
  "onSearch exampleProps = Some recordCall
   \<and> (\<exists>s'. snd (handleSearch exampleProps \<lparr>defaultPrevented = False\<rparr>
               ((constructor exampleProps)(''searchValue'' \<mapsto> JStr ''a b*'')) []) =
            Inr (s', [(''name__icontains'', JStr ''a b*'')]))
   \<and> (\<exists>s'. snd (handleSearch exampleProps \<lparr>defaultPrevented = False\<rparr>
               ((constructor exampleProps)(''searchValue'' \<mapsto> JStr '''')) []) =
            Inr (s', [(''name__icontains'', JStr '''')]))"
proof -
  have h: "onSearch exampleProps = Some recordCall" by (simp add: exampleProps_def)
  have k: "prop_get (constructor exampleProps) ''searchKey'' = JStr ''name''"
    by (simp add: constructor_def prop_get_def exampleProps_def)
  from handleSearch_accepts_any_text [of exampleProps "\<lparr>defaultPrevented = False\<rparr>"
      "constructor exampleProps" "''a b*''" "[]" recordCall] h
  show ?thesis by (simp add: k recordCall_def)
qed

subsection \<open>Typing and selecting\<close>

text \<open>
  Claim C8. The change handler of the text input stores the string it is given as the
  text value, unchanged, and leaves every other property of the state as it was.
\<close>

theorem handleSearchInputChange_tracks_text:
  "handleSearchInputChange v s ''searchValue'' = Some (JStr v)
   \<and> handleSearchInputChange v s ''searchKey'' = s ''searchKey''
   \<and> handleSearchInputChange v s ''isSearchDropdownOpen'' = s ''isSearchDropdownOpen''
   \<and> handleSearchInputChange v s |` (- {''searchValue''}) = s |` (- {''searchValue''})"
  by (simp add: handleSearchInputChange_def)

text \<open>
  Claim C3. When the text of the selected item is the name of some column, selecting it
  sets the selected key to the key of the first column of that name (no column before it
  has the name) and closes the dropdown.
\<close>

theorem handleDropdownSelect_first_match:
  assumes "t \<in> set (map name (columns p))"
  shows "\<exists>i < length (columns p).
           name (columns p ! i) = t
           \<and> (\<forall>j < i. name (columns p ! j) \<noteq> t)
           \<and> handleDropdownSelect p t s =
               Inr (s(''isSearchDropdownOpen'' \<mapsto> JBool False,
                      ''searchKey'' \<mapsto> JStr (key (columns p ! i))))"
proof -
  from assms have "find (\<lambda>c. name c = t) (columns p) \<noteq> None"
    by (auto simp: find_None_iff)
  then obtain c where c: "find (\<lambda>c. name c = t) (columns p) = Some c" by blast
  then obtain i where i: "i < length (columns p)" "name (columns p ! i) = t"
      "c = columns p ! i" "\<forall>j < i. name (columns p ! j) \<noteq> t"
    by (auto simp: find_Some_iff)
  from c i(3) have "handleDropdownSelect p t s =
      Inr (s(''isSearchDropdownOpen'' \<mapsto> JBool False,
             ''searchKey'' \<mapsto> JStr (key (columns p ! i))))"
    by (simp add: handleDropdownSelect_def)
  with i show ?thesis by blast
qed

text \<open>
  Two columns are named \<^verbatim>\<open>ID\<close>; selecting that name in an open dropdown takes the key of
  the first of them.
\<close>

theorem handleDropdownSelect_first_match_witness:
  "''ID'' \<in> set (map name (columns sharedNameProps))
   \<and> (\<exists>i < length (columns sharedNameProps).
         name (columns sharedNameProps ! i) = ''ID''
         \<and> (\<forall>j < i. name (columns sharedNameProps ! j) \<noteq> ''ID'')
         \<and> handleDropdownSelect sharedNameProps ''ID''
               (handleDropdownToggle True (constructor sharedNameProps)) =
             Inr ((handleDropdownToggle True (constructor sharedNameProps))
                    (''isSearchDropdownOpen'' \<mapsto> JBool False,
                     ''searchKey'' \<mapsto> JStr (key (columns sharedNameProps ! i)))))
   \<and> handleDropdownSelect sharedNameProps ''ID''
         (handleDropdownToggle True (constructor sharedNameProps)) =
       Inr [''isSearchDropdownOpen'' \<mapsto> JBool False, ''searchKey'' \<mapsto> JStr ''id'',
            ''searchValue'' \<mapsto> JStr '''']"
proof -
  have h: "''ID'' \<in> set (map name (columns sharedNameProps))"
    by (simp add: sharedNameProps_def sharedNameColumns_def defaultProps_def)
  have r: "handleDropdownSelect sharedNameProps ''ID''
         (handleDropdownToggle True (constructor sharedNameProps)) =
       Inr [''isSearchDropdownOpen'' \<mapsto> JBool False, ''searchKey'' \<mapsto> JStr ''id'',
            ''searchValue'' \<mapsto> JStr '''']"
    by (auto simp: handleDropdownSelect_def handleDropdownToggle_def constructor_def
        sharedNameProps_def sharedNameColumns_def defaultProps_def)
  from handleDropdownSelect_first_match [OF h] h r show ?thesis by blast
qed

subsection \<open>The state over sequences of events\<close>

text \<open>
  Claim C2, as stated: in every reachable state the selected key is the key of an element
  of \<^verbatim>\<open>columns\<close>. It fails in the first state already: the constructor takes the key from
  the \<^verbatim>\<open>sortedColumnKey\<close> prop, whose default is \<^verbatim>\<open>name\<close>, and does not look at \<^verbatim>\<open>columns\<close>.
\<close>

theorem constructor_key_not_in_columns:
  "\<not> selectedKeyInColumns idOnlyProps (constructor idOnlyProps)"
  by (simp add: selectedKeyInColumns_constructor idOnlyProps_def idOnlyColumns_def
      defaultProps_def)

text \<open>
  Claim C2, amended: if the \<^verbatim>\<open>sortedColumnKey\<close> prop is the key of an element of
  \<^verbatim>\<open>columns\<close>, then after construction and any sequence of events the selected key is
  the key of an element of \<^verbatim>\<open>columns\<close>.
\<close>

theorem searchKey_stays_in_columns:
  assumes "sortedColumnKey p \<in> set (map key (columns p))"
  shows "selectedKeyInColumns p (fst (run p ops (constructor p, w)))"
proof -
  from assms have "selectedKeyInColumns p (fst (constructor p, w))"
    by (simp add: selectedKeyInColumns_constructor)
  then show ?thesis by (rule run_preserves_selectedKey)
qed

theorem searchKey_stays_in_columns_witness:
  "sortedColumnKey exampleProps \<in> set (map key (columns exampleProps))
   \<and> selectedKeyInColumns exampleProps
       (fst (run exampleProps exampleOps (constructor exampleProps, [])))
   \<and> prop_get (fst (run exampleProps exampleOps (constructor exampleProps, []))) ''searchKey''
       = JStr ''id''"
proof -
  have h: "sortedColumnKey exampleProps \<in> set (map key (columns exampleProps))"
    by (simp add: exampleProps_def exampleColumns_def)
  have r: "prop_get (fst (run exampleProps exampleOps (constructor exampleProps, [])))
      ''searchKey'' = JStr ''id''"
    by (simp add: exampleOps_def exampleProps_def exampleColumns_def constructor_def
        handleDropdownToggle_def handleDropdownSelect_def handleSearchInputChange_def
        handleSearch_def prop_get_def)
  from searchKey_stays_in_columns [OF h, of exampleOps "[]"] h r show ?thesis by simp
qed

text \<open>
  Claim C9. The state object has exactly the three properties \<^verbatim>\<open>isSearchDropdownOpen\<close>,
  \<^verbatim>\<open>searchKey\<close> and \<^verbatim>\<open>searchValue\<close>: after construction, after any sequence of events, and
  after one more event of any kind.
\<close>

theorem state_has_three_fields:
  "dom (constructor p) = {''isSearchDropdownOpen'', ''searchKey'', ''searchValue''}
   \<and> dom (fst (run p xs (constructor p, w)))
       = {''isSearchDropdownOpen'', ''searchKey'', ''searchValue''}
   \<and> dom (fst (dispatch p x (run p xs (constructor p, w))))
       = {''isSearchDropdownOpen'', ''searchKey'', ''searchValue''}"
proof -
  have "dom (fst (constructor p, w)) = stateFields" by (simp add: constructor_dom)
  then have r: "dom (fst (run p xs (constructor p, w))) = stateFields" by (rule run_dom)
  then have "dom (fst (dispatch p x (run p xs (constructor p, w)))) = stateFields"
    by (rule dispatch_dom)
  with r show ?thesis using constructor_dom [of p] by (simp add: stateFields_def)
qed

subsection \<open>Rendering the column selector\<close>

text \<open>
  Claim C6. When the selected key is the key of a column, \<^verbatim>\<open>render\<close> returns a view. The
  current column is the first one with the selected key. If no searchable column with
  another key exists, the selector is the static label with the current column's name;
  otherwise it is a dropdown whose items are exactly those columns, in their order.
\<close>

theorem render_selector:
  assumes "selectedKeyInColumns p s"
  shows "\<exists>i < length (columns p).
           JStr (key (columns p ! i)) = prop_get s ''searchKey''
           \<and> (\<forall>j < i. JStr (key (columns p ! j)) \<noteq> prop_get s ''searchKey'')
           \<and> (\<exists>v. render p s = Inr v
                 \<and> keySelector v =
                     (if shownColumns p s = []
                      then NoOptionDropdown (name (columns p ! i))
                      else Dropdown (prop_get s ''isSearchDropdownOpen'') (name (columns p ! i))
                             (map (\<lambda>c. \<lparr>itemKey = key c, itemText = name c\<rparr>)
                                (shownColumns p s))))"
proof -
  let ?P = "\<lambda>c. JStr (key c) = prop_get s ''searchKey''"
  from assms have "find ?P (columns p) \<noteq> None"
    by (auto simp: find_None_iff selectedKeyInColumns_def)
  then obtain c where c: "find ?P (columns p) = Some c" by blast
  then obtain i where i: "i < length (columns p)" "?P (columns p ! i)"
      "c = columns p ! i" "\<forall>j < i. \<not> ?P (columns p ! j)"
    by (auto simp: find_Some_iff)
  have items: "searchDropdownItems p s =
      map (\<lambda>c. \<lparr>itemKey = key c, itemText = name c\<rparr>) (shownColumns p s)"
    by (simp add: searchDropdownItems_def shownColumns_def)
  from c i(3) items have "\<exists>v. render p s = Inr v
      \<and> keySelector v =
          (if shownColumns p s = []
           then NoOptionDropdown (name (columns p ! i))
           else Dropdown (prop_get s ''isSearchDropdownOpen'') (name (columns p ! i))
                  (map (\<lambda>c. \<lparr>itemKey = key c, itemText = name c\<rparr>) (shownColumns p s)))"
    by (simp add: render_def)
  with i show ?thesis by blast
qed

text \<open>
  With three columns, one of them not searchable, a new component shows a dropdown with
  the one other searchable column; with a single column it shows the static label.
\<close>

theorem render_selector_witness:
  "selectedKeyInColumns exampleProps (constructor exampleProps)
   \<and> selectedKeyInColumns singleColumnProps (constructor singleColumnProps)
   \<and> (\<exists>v. render exampleProps (constructor exampleProps) = Inr v
         \<and> keySelector v = Dropdown (JBool False) ''Name'' [\<lparr>itemKey = ''id'', itemText = ''ID''\<rparr>])
   \<and> (\<exists>v. render singleColumnProps (constructor singleColumnProps) = Inr v
         \<and> keySelector v = NoOptionDropdown ''Name'')"
proof -
  have h1: "selectedKeyInColumns exampleProps (constructor exampleProps)"
    by (simp add: selectedKeyInColumns_def constructor_def prop_get_def exampleProps_def
        exampleColumns_def)
  have h2: "selectedKeyInColumns singleColumnProps (constructor singleColumnProps)"
    by (simp add: selectedKeyInColumns_def constructor_def prop_get_def singleColumnProps_def
        defaultProps_def)
  have s1: "shownColumns exampleProps (constructor exampleProps) =
      [\<lparr>key = ''id'', name = ''ID'', isSearchable = True\<rparr>]"
    by (simp add: shownColumns_def constructor_def prop_get_def exampleProps_def
        exampleColumns_def)
  have s2: "shownColumns singleColumnProps (constructor singleColumnProps) = []"
    by (simp add: shownColumns_def constructor_def prop_get_def singleColumnProps_def
        defaultProps_def)
  have k1: "prop_get (constructor exampleProps) ''searchKey'' = JStr ''name''"
    "prop_get (constructor exampleProps) ''isSearchDropdownOpen'' = JBool False"
    by (simp_all add: constructor_def prop_get_def exampleProps_def)
  have k2: "prop_get (constructor singleColumnProps) ''searchKey'' = JStr ''name''"
    by (simp add: constructor_def prop_get_def singleColumnProps_def defaultProps_def)
  from render_selector [OF h1] obtain i v where
    a: "i < length (columns exampleProps)"
      "JStr (key (columns exampleProps ! i)) = JStr ''name''"
      "render exampleProps (constructor exampleProps) = Inr v"
      "keySelector v = Dropdown (JBool False) (name (columns exampleProps ! i))
         [\<lparr>itemKey = ''id'', itemText = ''ID''\<rparr>]"
    unfolding s1 k1 by auto
  from a(1,2) have "i = 0"
    by (auto simp: exampleProps_def exampleColumns_def less_Suc_eq numeral_3_eq_3)
  with a(3,4) have r1: "\<exists>v. render exampleProps (constructor exampleProps) = Inr v
      \<and> keySelector v = Dropdown (JBool False) ''Name'' [\<lparr>itemKey = ''id'', itemText = ''ID''\<rparr>]"
    by (simp add: exampleProps_def exampleColumns_def)
  from render_selector [OF h2] obtain i' v' where
    b: "i' < length (columns singleColumnProps)"
      "render singleColumnProps (constructor singleColumnProps) = Inr v'"
      "keySelector v' = NoOptionDropdown (name (columns singleColumnProps ! i'))"
    unfolding s2 k2 by auto
  from b(1) have "i' = 0" by (simp add: singleColumnProps_def defaultProps_def)
  with b(2,3) have r2: "\<exists>v. render singleColumnProps (constructor singleColumnProps) = Inr v
      \<and> keySelector v = NoOptionDropdown ''Name''"
    by (simp add: singleColumnProps_def defaultProps_def)
  from h1 h2 r1 r2 show ?thesis by blast
qed

end
